theory Spec2Isabelle
  imports Complex_Main "HOL-Library.Word"
begin

section \<open>JavaScript strings\<close>

text \<open>
  A JavaScript string is a sequence of UTF-16 code units; \<open>length\<close>, \<open>trim\<close>,
  \<open>split\<close>, \<open>startsWith\<close> and the regular expressions of the sources all work on
  code units. String literals of the sources that are plain ASCII are written
  \<open>js ''...''\<close>.
\<close>

type_synonym jschar = "16 word"
type_synonym jsstring = "jschar list"

definition js :: "string \<Rightarrow> jsstring" where
  "js s = map of_char s"

text \<open>
  ECMAScript \<open>WhiteSpace\<close> and \<open>LineTerminator\<close>: what \<open>String.prototype.trim\<close>
  strips and what \<open>\s\<close> matches.
\<close>

definition isWhiteSpace :: "jschar \<Rightarrow> bool" where
  "isWhiteSpace c =
     (c = 9 \<or> c = 10 \<or> c = 11 \<or> c = 12 \<or> c = 13 \<or> c = 32 \<or> c = 160 \<or> c = 0x1680
      \<or> (0x2000 \<le> c \<and> c \<le> 0x200A)
      \<or> c = 0x2028 \<or> c = 0x2029 \<or> c = 0x202F \<or> c = 0x205F \<or> c = 0x3000 \<or> c = 0xFEFF)"

text \<open>The regular expression class \<open>\d\<close>: the ASCII digits.\<close>

definition isDigit :: "jschar \<Rightarrow> bool" where
  "isDigit c = (48 \<le> c \<and> c \<le> 57)"

definition trim :: "jsstring \<Rightarrow> jsstring" where
  "trim s = rev (dropWhile isWhiteSpace (rev (dropWhile isWhiteSpace s)))"

definition startsWith :: "jsstring \<Rightarrow> jsstring \<Rightarrow> bool" where
  "startsWith s p = (take (length p) s = p)"

text \<open>\<open>s.split('\n')\<close>: one piece more than there are line feeds.\<close>

fun splitLines :: "jsstring \<Rightarrow> jsstring list" where
  "splitLines [] = [[]]"
| "splitLines (c # cs) =
     (if c = 10 then [] # splitLines cs
      else (case splitLines cs of [] \<Rightarrow> [[c]] | l # ls \<Rightarrow> (c # l) # ls))"

text \<open>A non-negative integer in a template literal: its decimal digits.\<close>

fun natToString :: "nat \<Rightarrow> jsstring" where
  "natToString n =
     (if n < 10 then [of_nat (48 + n)]
      else natToString (n div 10) @ [of_nat (48 + n mod 10)])"

declare natToString.simps [simp del]

definition intToString :: "int \<Rightarrow> jsstring" where
  "intToString i = (if i < 0 then 45 # natToString (nat (- i)) else natToString (nat i))"


section \<open>The feedback parser of \<open>FeedbackService\<close>\<close>

text \<open>
  The four section patterns of \<open>parseFeedbackContent\<close> have the shape
  \<open>/(?:N\.\s*LABEL|LABEL)[\s\S]*?(?=(?:\d\.|$))/i\<close> (the last one ends in
  \<open>[\s\S]*?$\<close>). They are modelled piece by piece.

  Under the \<open>i\<close> flag a pattern character and an input code unit match when their
  canonical forms agree. The patterns hold ASCII characters only, and the canonical form
  never maps a code unit above 127 to one below 128, so comparing after mapping
  \<open>a\<close>..\<open>z\<close> to \<open>A\<close>..\<open>Z\<close> is exact.
\<close>

definition toUpperAscii :: "jschar \<Rightarrow> jschar" where
  "toUpperAscii c = (if 97 \<le> c \<and> c \<le> 122 then c - 32 else c)"

text \<open>A literal at the head of the text, case-insensitively: the text after it.\<close>

fun matchLiteralCI :: "jsstring \<Rightarrow> jsstring \<Rightarrow> jsstring option" where
  "matchLiteralCI [] s = Some s"
| "matchLiteralCI (p # ps) [] = None"
| "matchLiteralCI (p # ps) (c # cs) =
     (if toUpperAscii c = toUpperAscii p then matchLiteralCI ps cs else None)"

text \<open>
  \<open>(?:N\.\s*LABEL|LABEL)\<close> at the head of the text: the first alternative is tried
  first; \<open>\s*\<close> is greedy, and giving back white space cannot help, since the label
  starts with a letter. The result is the text after the heading.
\<close>

definition matchHeading :: "jsstring \<Rightarrow> jsstring \<Rightarrow> jsstring \<Rightarrow> jsstring option" where
  "matchHeading num label s =
     (case (case matchLiteralCI (num @ js ''.'') s of
              None \<Rightarrow> None
            | Some r \<Rightarrow> matchLiteralCI label (dropWhile isWhiteSpace r)) of
        Some r \<Rightarrow> Some r
      | None \<Rightarrow> matchLiteralCI label s)"

text \<open>
  \<open>[\s\S]*?(?=(?:\d\.|$))\<close>: the shortest run of code units after which a digit and a
  dot follow, or the input ends (no \<open>m\<close> flag: \<open>$\<close> is the end of the input).
\<close>

fun lazyUntilDigitDot :: "jsstring \<Rightarrow> jsstring" where
  "lazyUntilDigitDot [] = []"
| "lazyUntilDigitDot [c] = [c]"
| "lazyUntilDigitDot (c # d # cs) =
     (if isDigit c \<and> d = 46 then [] else c # lazyUntilDigitDot (d # cs))"

text \<open>\<open>[\s\S]*?$\<close>: everything up to the end of the input.\<close>

definition lazyUntilEnd :: "jsstring \<Rightarrow> jsstring" where
  "lazyUntilEnd s = s"

text \<open>
  \<open>content.match(/HEADING BODY/i)[0]\<close>: the match at the leftmost position where the
  heading matches (the body always matches after it), or \<open>None\<close> for \<open>null\<close>.
\<close>

fun matchSection ::
  "(jsstring \<Rightarrow> jsstring option) \<Rightarrow> (jsstring \<Rightarrow> jsstring) \<Rightarrow> jsstring \<Rightarrow> jsstring option" where
  "matchSection heading body [] =
     (case heading [] of Some r \<Rightarrow> Some (body r) | None \<Rightarrow> None)"
| "matchSection heading body (c # cs) =
     (case heading (c # cs) of
        Some r \<Rightarrow> Some (take (length (c # cs) - length r) (c # cs) @ body r)
      | None \<Rightarrow> matchSection heading body cs)"

text \<open>\<open>line.match(/^\d+\./)\<close>.\<close>

definition startsWithOrdinal :: "jsstring \<Rightarrow> bool" where
  "startsWithOrdinal line =
     (takeWhile isDigit line \<noteq> [] \<and> startsWith (dropWhile isDigit line) (js ''.''))"

text \<open>\<open>line.replace(/^[-\<bullet>]\s*/, '')\<close>; the bullet glyph is U+2022.\<close>

definition stripBullet :: "jsstring \<Rightarrow> jsstring" where
  "stripBullet line =
     (case line of
        [] \<Rightarrow> []
      | c # cs \<Rightarrow> if c = 45 \<or> c = 0x2022 then dropWhile isWhiteSpace cs else line)"

text \<open>\<open>line.replace(/^\d+\.\s*/, '')\<close>.\<close>

definition stripOrdinal :: "jsstring \<Rightarrow> jsstring" where
  "stripOrdinal line =
     (if startsWithOrdinal line
      then dropWhile isWhiteSpace (drop 1 (dropWhile isDigit line))
      else line)"

definition extractBulletPoints :: "jsstring \<Rightarrow> jsstring list" where
  "extractBulletPoints text =
     (let lines =
        map (\<lambda>line. stripOrdinal (stripBullet line))
          (filter (\<lambda>line. startsWith line (js ''-'') \<or> startsWith line [0x2022]
                            \<or> startsWithOrdinal line)
             (map trim (splitLines text)))
      in if length lines > 0 then lines else [])"

record parsedFeedback =
  strengths :: "jsstring list option"
  improvements :: "jsstring list option"
  missing :: "jsstring list option"
  frameworks :: "jsstring list option"

definition parseFeedbackContent :: "jsstring \<Rightarrow> parsedFeedback" where
  "parseFeedbackContent content =
     \<lparr> strengths = map_option extractBulletPoints
         (matchSection (matchHeading (js ''1'') (js ''STRENGTHS'')) lazyUntilDigitDot content),
       improvements = map_option extractBulletPoints
         (matchSection (matchHeading (js ''2'') (js ''AREAS FOR IMPROVEMENT''))
            lazyUntilDigitDot content),
       missing = map_option extractBulletPoints
         (matchSection (matchHeading (js ''3'') (js ''MISSING CONSIDERATIONS''))
            lazyUntilDigitDot content),
       frameworks = map_option extractBulletPoints
         (matchSection (matchHeading (js ''4'') (js ''FRAMEWORK SUGGESTIONS''))
            lazyUntilEnd content) \<rparr>"


section \<open>Errors and HTTP replies\<close>

text \<open>
  Thrown values. The sources declare no error classes: a failure of the feedback pipeline
  is an \<open>Error\<close> told apart by its message only. \<open>FirebaseError\<close> carries the
  error code of a failed store operation; \<open>TypeError\<close> and \<open>SyntaxError\<close> are what
  the runtime throws on a rejected \<open>fetch\<close>, a property read on \<open>undefined\<close> and a
  body that is not JSON.
\<close>

datatype error = Error jsstring | FirebaseError jsstring | TypeError | SyntaxError

text \<open>
  What \<open>await fetch(...)\<close> gives: \<open>None\<close> when the promise rejects (network error),
  otherwise a response with \<open>response.ok\<close>, \<open>response.status\<close> and what
  \<open>await response.json()\<close> yields; the type parameter is the part of the JSON value that
  the caller reads.
\<close>

datatype 'a jsonBody = NotJson | Json 'a
datatype 'a response = Response bool nat "'a jsonBody"
type_synonym 'a fetchResult = "'a response option"


section \<open>\<open>lib/adminConfig.ts\<close>\<close>

definition ADMIN_EMAILS :: "jsstring list" where
  "ADMIN_EMAILS = [js ''ithatejesh@gmail.com'', js ''ivsntejesh@gmail.com'']"

text \<open>
  \<open>String.prototype.toLowerCase\<close> is the runtime's Unicode case mapping, which is not
  part of the repository: it is a parameter. \<open>!email\<close> holds for \<open>null\<close>,
  \<open>undefined\<close> and the empty string.
\<close>

definition isUserAdmin :: "(jsstring \<Rightarrow> jsstring) \<Rightarrow> jsstring option \<Rightarrow> bool" where
  "isUserAdmin toLowerCase email =
     (case email of
        None \<Rightarrow> False
      | Some e \<Rightarrow> if e = [] then False else toLowerCase e \<in> set ADMIN_EMAILS)"


section \<open>\<open>GeminiService.generateInsightsForAnswer\<close>\<close>

definition insightsPrompt :: "jsstring \<Rightarrow> jsstring \<Rightarrow> jsstring \<Rightarrow> jsstring" where
  "insightsPrompt questionTitle questionDescription userAnswer =
     js ''You are an expert case study evaluator. Analyze the user's response and provide constructive feedback.\<newline>\<newline>Case Study: ''
     @ questionTitle
     @ js ''\<newline>\<newline>Problem: '' @ questionDescription
     @ js ''\<newline>\<newline>Student's Answer: '' @ userAnswer
     @ js ''\<newline>\<newline>Provide feedback in 4 concise sections (complete all sections):\<newline>\<newline>1. STRENGTHS (2-3 points)\<newline>2. AREAS FOR IMPROVEMENT (2-3 points)\<newline>3. MISSING CONSIDERATIONS (2-3 points)\<newline>4. FRAMEWORK SUGGESTIONS (1-2 specific frameworks)\<newline>\<newline>Be encouraging but constructive. Keep total response under 500 words.''"

text \<open>
  The body of the \<open>try\<close> block. The JSON value is read at
  \<open>data?.candidates?.[0]?.content?.parts?.[0]?.text\<close>: \<open>None\<close> when that path is
  missing; a missing or empty text is falsy.
\<close>

definition insightsRequest :: "jsstring option fetchResult \<Rightarrow> error + jsstring" where
  "insightsRequest reply =
     (case reply of
        None \<Rightarrow> Inl TypeError
      | Some (Response ok status body) \<Rightarrow>
          if \<not> ok then Inl (Error (js ''Gemini API error: '' @ natToString status))
          else (case body of
                  NotJson \<Rightarrow> Inl SyntaxError
                | Json t \<Rightarrow>
                    (case t of
                       None \<Rightarrow> Inl (Error (js ''Invalid response format from Gemini API''))
                     | Some text \<Rightarrow>
                         if text = []
                         then Inl (Error (js ''Invalid response format from Gemini API''))
                         else Inr text)))"

text \<open>
  The method: the key check throws before the \<open>try\<close>; whatever the \<open>try\<close> block
  throws is replaced by one fixed error.
\<close>

definition generateInsightsForAnswer ::
  "jsstring \<Rightarrow> (jsstring \<Rightarrow> jsstring option fetchResult) \<Rightarrow>
   jsstring \<Rightarrow> jsstring \<Rightarrow> jsstring \<Rightarrow> error + jsstring" where
  "generateInsightsForAnswer apiKey fetch questionTitle questionDescription userAnswer =
     (if apiKey = [] then Inl (Error (js ''Gemini API key not configured''))
      else (case insightsRequest
                   (fetch (insightsPrompt questionTitle questionDescription userAnswer)) of
              Inl e \<Rightarrow> Inl (Error (js ''Failed to generate feedback''))
            | Inr text \<Rightarrow> Inr text))"


section \<open>\<open>FeedbackService\<close>: the store and the environment\<close>

type_synonym timestamp = int

record feedbackBody = parsedFeedback +
  content :: jsstring

record AIFeedback =
  docId :: jsstring
  answerId :: jsstring
  userId :: jsstring
  questionId :: jsstring
  questionTitle :: jsstring
  userAnswer :: jsstring
  feedback :: feedbackBody
  generatedAt :: timestamp
  createdAt :: timestamp

record DailyLimit =
  limitUserId :: jsstring
  date :: jsstring
  requestCount :: int
  lastRequestAt :: "timestamp option"

record FeedbackStats =
  totalRequests :: int
  remainingToday :: int
  lastRequestDate :: "timestamp option"

record canRequest =
  allowed :: bool
  remaining :: int
  message :: "jsstring option"

text \<open>
  The two Firestore collections the service uses, and a count of the invocations of
  \<open>geminiService.generateInsightsForAnswer\<close> (the model call), which the sources do
  not keep: it is there to state that a path makes no model call.
  \<open>aiFeedback\<close> lists the documents in the order a query returns them; \<open>addDoc\<close>
  puts the new document last. \<open>dailyLimits\<close> maps a document id to its document.
\<close>

record world =
  aiFeedback :: "AIFeedback list"
  dailyLimits :: "jsstring \<Rightarrow> DailyLimit option"
  geminiCalls :: nat

text \<open>
  What one call of \<open>generateFeedback\<close> meets outside the program: the clock, the
  outcome of each store operation (\<open>Some e\<close>: the operation throws \<open>e\<close>), the
  configured API key and the model endpoint.
\<close>

record env =
  toLowerCase :: "jsstring \<Rightarrow> jsstring"
  todayAtStats :: jsstring
  todayAtIncrement :: jsstring
  queryFeedbackFails :: "error option"
  getLimitFails :: "error option"
  apiKey :: jsstring
  geminiFetch :: "jsstring \<Rightarrow> jsstring option fetchResult"
  incrementGetFails :: "error option"
  incrementWriteFails :: "error option"
  addDocResult :: "error + jsstring"
  serverTimeAtIncrement :: timestamp
  serverTimeAtAdd :: timestamp
  clientTime :: timestamp

definition DAILY_LIMIT :: int where
  "DAILY_LIMIT = 3"

text \<open>The document id \<open>`${userId}_${today}`\<close>.\<close>

definition limitDocId :: "jsstring \<Rightarrow> jsstring \<Rightarrow> jsstring" where
  "limitDocId uid today = uid @ js ''_'' @ today"


section \<open>\<open>FeedbackService\<close>: the operations\<close>

text \<open>
  \<open>getFeedbackForAnswer\<close>: the query \<open>where('answerId', '==', answerId), limit(1)\<close>.
  A query that throws is caught and answered with \<open>null\<close>, with or without the
  \<open>permission-denied\<close> code.
\<close>

definition getFeedbackForAnswer :: "env \<Rightarrow> world \<Rightarrow> jsstring \<Rightarrow> AIFeedback option" where
  "getFeedbackForAnswer e w aid =
     (case queryFeedbackFails e of
        None \<Rightarrow> find (\<lambda>d. answerId d = aid) (aiFeedback w)
      | Some err \<Rightarrow>
          if err = FirebaseError (js ''permission-denied'') then None else None)"

definition getUserDailyStats :: "env \<Rightarrow> world \<Rightarrow> jsstring \<Rightarrow> jsstring option \<Rightarrow> FeedbackStats" where
  "getUserDailyStats e w uid email =
     (if isUserAdmin (toLowerCase e) email
      then \<lparr> totalRequests = 0, remainingToday = 999, lastRequestDate = None \<rparr>
      else (case getLimitFails e of
              Some err \<Rightarrow>
                \<lparr> totalRequests = 0, remainingToday = DAILY_LIMIT, lastRequestDate = None \<rparr>
            | None \<Rightarrow>
                (case dailyLimits w (limitDocId uid (todayAtStats e)) of
                   Some d \<Rightarrow>
                     \<lparr> totalRequests = requestCount d,
                       remainingToday = max 0 (DAILY_LIMIT - requestCount d),
                       lastRequestDate = lastRequestAt d \<rparr>
                 | None \<Rightarrow>
                     \<lparr> totalRequests = 0, remainingToday = DAILY_LIMIT,
                       lastRequestDate = None \<rparr>)))"

definition limitMessage :: jsstring where
  "limitMessage =
     js ''You've reached your daily limit of '' @ intToString DAILY_LIMIT
     @ js '' AI feedback requests. Limit resets at midnight.''"

definition canRequestFeedback :: "env \<Rightarrow> world \<Rightarrow> jsstring \<Rightarrow> jsstring option \<Rightarrow> canRequest" where
  "canRequestFeedback e w uid email =
     (if isUserAdmin (toLowerCase e) email
      then \<lparr> allowed = True, remaining = 999, message = None \<rparr>
      else (let stats = getUserDailyStats e w uid email
            in if remainingToday stats \<le> 0
               then \<lparr> allowed = False, remaining = 0, message = Some limitMessage \<rparr>
               else \<lparr> allowed = True, remaining = remainingToday stats, message = None \<rparr>))"

text \<open>
  \<open>incrementDailyCount\<close>: read, then write \<open>(requestCount || 0) + 1\<close>, or create the
  document with count 1. Either store operation may throw.
\<close>

definition incrementDailyCount :: "env \<Rightarrow> world \<Rightarrow> jsstring \<Rightarrow> error + world" where
  "incrementDailyCount e w uid =
     (let today = todayAtIncrement e; key = limitDocId uid today
      in case incrementGetFails e of
           Some err \<Rightarrow> Inl err
         | None \<Rightarrow>
             (case incrementWriteFails e of
                Some err \<Rightarrow> Inl err
              | None \<Rightarrow>
                  (case dailyLimits w key of
                     Some d \<Rightarrow>
                       Inr (w\<lparr> dailyLimits := (dailyLimits w)(key \<mapsto>
                              d\<lparr> requestCount :=
                                    (if requestCount d = 0 then 0 else requestCount d) + 1,
                                  lastRequestAt := Some (serverTimeAtIncrement e) \<rparr>) \<rparr>)
                   | None \<Rightarrow>
                       Inr (w\<lparr> dailyLimits := (dailyLimits w)(key \<mapsto>
                              \<lparr> limitUserId = uid, date = today, requestCount = 1,
                                lastRequestAt = Some (serverTimeAtIncrement e) \<rparr>) \<rparr>))))"

definition tooShortMessage :: jsstring where
  "tooShortMessage =
     js ''Your answer is too short. Please provide a detailed response (at least 50 characters) for meaningful AI feedback.''"

text \<open>\<open>{ content: feedbackContent, ...parsedFeedback }\<close>.\<close>

definition withContent :: "jsstring \<Rightarrow> parsedFeedback \<Rightarrow> feedbackBody" where
  "withContent c p =
     \<lparr> strengths = strengths p, improvements = improvements p, missing = missing p,
       frameworks = frameworks p, content = c \<rparr>"

text \<open>
  \<open>generateFeedback\<close>: the result, and the world after the call. The stored document
  carries the server's timestamp; the returned object carries the client's \<open>new Date()\<close>.
  The \<open>catch\<close> logs and rethrows.
\<close>

definition generateFeedback ::
  "env \<Rightarrow> world \<Rightarrow> jsstring \<Rightarrow> jsstring \<Rightarrow> jsstring option \<Rightarrow> jsstring \<Rightarrow> jsstring \<Rightarrow>
   jsstring \<Rightarrow> jsstring \<Rightarrow> (error + AIFeedback) \<times> world" where
  "generateFeedback e w aid uid email qid qtitle qdesc answer =
     (case getFeedbackForAnswer e w aid of
        Some existingFeedback \<Rightarrow> (Inr existingFeedback, w)
      | None \<Rightarrow>
          (let canReq = canRequestFeedback e w uid email
           in if \<not> allowed canReq
              then (Inl (Error (case message canReq of
                                  None \<Rightarrow> js ''Rate limit exceeded''
                                | Some m \<Rightarrow> if m = [] then js ''Rate limit exceeded'' else m)),
                    w)
              else if length (trim answer) < 50 then (Inl (Error tooShortMessage), w)
              else
                (let w1 = w\<lparr> geminiCalls := geminiCalls w + 1 \<rparr>
                 in case generateInsightsForAnswer (apiKey e) (geminiFetch e)
                           qtitle qdesc answer of
                      Inl err \<Rightarrow> (Inl err, w1)
                    | Inr feedbackContent \<Rightarrow>
                        (let parsed = parseFeedbackContent feedbackContent
                         in case (if \<not> isUserAdmin (toLowerCase e) email
                                  then incrementDailyCount e w1 uid else Inr w1) of
                              Inl err \<Rightarrow> (Inl err, w1)
                            | Inr w2 \<Rightarrow>
                                (case addDocResult e of
                                   Inl err \<Rightarrow> (Inl err, w2)
                                 | Inr newId \<Rightarrow>
                                     (let doc =
                                        \<lparr> docId = newId, answerId = aid, userId = uid,
                                          questionId = qid, questionTitle = qtitle,
                                          userAnswer = answer,
                                          feedback = withContent feedbackContent parsed,
                                          generatedAt = serverTimeAtAdd e,
                                          createdAt = serverTimeAtAdd e \<rparr>
                                      in (Inr (doc\<lparr> generatedAt := clientTime e,
                                                     createdAt := clientTime e \<rparr>),
                                          w2\<lparr> aiFeedback := aiFeedback w2 @ [doc] \<rparr>)))))))"


section \<open>The re-parser of the components\<close>

text \<open>
  \<open>AIFeedbackSection\<close>, \<open>AIFeedbackModal\<close> and \<open>UserProfile\<close> parse the stored raw
  text again when the stored sections look degenerate (\<open>parseExistingFeedback\<close> and
  their own \<open>extractBulletPoints\<close>, the same text in the three files). The section
  patterns are
  \<open>/(?:###\s*)?(?:N\.\s*)?NAME[\s\S]*?(?=(?:###\s*)?(?:M\.|###\s*M\.|$))/i\<close> with
  \<open>M = N + 1\<close>; the first has \<open>\s*\*?\*?\<close> after the name and the last ends in
  \<open>[\s\S]*?$\<close>. Every optional or greedy piece is followed by a rest that matches
  whenever the name has matched, and giving a piece back cannot make the name match, so
  each piece is taken whenever it is there.
\<close>

text \<open>\<open>(?:###\s*)?\<close> and \<open>(?:N\.\s*)?\<close> at the head of the text.\<close>

definition skipHashes :: "jsstring \<Rightarrow> jsstring" where
  "skipHashes s =
     (if startsWith s (js ''###'') then dropWhile isWhiteSpace (drop 3 s) else s)"

definition skipNumber :: "jsstring \<Rightarrow> jsstring \<Rightarrow> jsstring" where
  "skipNumber num s =
     (if startsWith s (num @ js ''.'')
      then dropWhile isWhiteSpace (drop (length num + 1) s) else s)"

text \<open>An optional \<open>S\<close>, an optional \<open>*\<close>, and \<open>\s+\<close>.\<close>

definition optionalS :: "jsstring \<Rightarrow> jsstring" where
  "optionalS s = (case s of [] \<Rightarrow> [] | c # cs \<Rightarrow> if toUpperAscii c = 83 then cs else s)"

definition optionalStar :: "jsstring \<Rightarrow> jsstring" where
  "optionalStar s = (case s of [] \<Rightarrow> [] | c # cs \<Rightarrow> if c = 42 then cs else s)"

definition someWhiteSpace :: "jsstring \<Rightarrow> jsstring option" where
  "someWhiteSpace s =
     (case s of
        [] \<Rightarrow> None
      | c # cs \<Rightarrow> if isWhiteSpace c then Some (dropWhile isWhiteSpace cs) else None)"

text \<open>The section names: \<open>STRENGTHS?\<close>, \<open>AREAS?\s+FOR\s+IMPROVEMENT\<close>,
  \<open>MISSING\s+CONSIDERATIONS?\<close>, \<open>FRAMEWORK\s+SUGGESTIONS?\<close>.\<close>

definition twoWords :: "jsstring \<Rightarrow> jsstring \<Rightarrow> jsstring \<Rightarrow> jsstring option" where
  "twoWords first second s =
     (case matchLiteralCI first s of
        None \<Rightarrow> None
      | Some r \<Rightarrow>
          (case someWhiteSpace r of
             None \<Rightarrow> None
           | Some r' \<Rightarrow> map_option optionalS (matchLiteralCI second r')))"

definition strengthsName :: "jsstring \<Rightarrow> jsstring option" where
  "strengthsName s = map_option optionalS (matchLiteralCI (js ''STRENGTH'') s)"

definition improvementsName :: "jsstring \<Rightarrow> jsstring option" where
  "improvementsName s =
     (case map_option optionalS (matchLiteralCI (js ''AREA'') s) of
        None \<Rightarrow> None
      | Some r \<Rightarrow>
          (case someWhiteSpace r of
             None \<Rightarrow> None
           | Some r1 \<Rightarrow>
               (case matchLiteralCI (js ''FOR'') r1 of
                  None \<Rightarrow> None
                | Some r2 \<Rightarrow>
                    (case someWhiteSpace r2 of
                       None \<Rightarrow> None
                     | Some r3 \<Rightarrow> matchLiteralCI (js ''IMPROVEMENT'') r3))))"

definition missingName :: "jsstring \<Rightarrow> jsstring option" where
  "missingName s = twoWords (js ''MISSING'') (js ''CONSIDERATION'') s"

definition frameworksName :: "jsstring \<Rightarrow> jsstring option" where
  "frameworksName s = twoWords (js ''FRAMEWORK'') (js ''SUGGESTION'') s"

definition numberedHeading ::
  "jsstring \<Rightarrow> (jsstring \<Rightarrow> jsstring option) \<Rightarrow> jsstring \<Rightarrow> jsstring option" where
  "numberedHeading num name s = name (skipNumber num (skipHashes s))"

text \<open>
  The lookahead \<open>(?:###\s*)?(?:M\.|###\s*M\.|$)\<close>, and the shortest run of code units
  after which it holds.
\<close>

definition atSectionNumber :: "jsstring \<Rightarrow> jsstring \<Rightarrow> bool" where
  "atSectionNumber num t =
     (startsWith t (num @ js ''.'')
      \<or> (startsWith t (js ''###'')
          \<and> startsWith (dropWhile isWhiteSpace (drop 3 t)) (num @ js ''.''))
      \<or> t = [])"

definition sectionEnds :: "jsstring \<Rightarrow> jsstring \<Rightarrow> bool" where
  "sectionEnds num t =
     ((startsWith t (js ''###'') \<and> atSectionNumber num (dropWhile isWhiteSpace (drop 3 t)))
      \<or> atSectionNumber num t)"

fun lazyUntil :: "(jsstring \<Rightarrow> bool) \<Rightarrow> jsstring \<Rightarrow> jsstring" where
  "lazyUntil stop [] = []"
| "lazyUntil stop (c # cs) = (if stop (c # cs) then [] else c # lazyUntil stop cs)"

text \<open>
  The three tests of the line filter: \<open>/^[\*\-\<bullet>]\s+\*?\*?/\<close>, \<open>/^\d+\.\s+/\<close> and
  \<open>/^\*\*[^*]+\*\*/\<close> (for the last one: the text between the stars and the text
  after them).
\<close>

definition markedLine :: "jsstring \<Rightarrow> bool" where
  "markedLine line =
     (case line of
        c # d # rest \<Rightarrow> (c = 42 \<or> c = 45 \<or> c = 0x2022) \<and> isWhiteSpace d
      | _ \<Rightarrow> False)"

definition ordinalLine :: "jsstring \<Rightarrow> bool" where
  "ordinalLine line =
     (takeWhile isDigit line \<noteq> []
      \<and> (case dropWhile isDigit line of c # d # rest \<Rightarrow> c = 46 \<and> isWhiteSpace d | _ \<Rightarrow> False))"

definition boldLead :: "jsstring \<Rightarrow> (jsstring \<times> jsstring) option" where
  "boldLead line =
     (if startsWith line (js ''**'')
      then (let inner = takeWhile (\<lambda>c. c \<noteq> 42) (drop 2 line);
                after = dropWhile (\<lambda>c. c \<noteq> 42) (drop 2 line)
            in if inner \<noteq> [] \<and> startsWith after (js ''**'') then Some (inner, drop 2 after)
               else None)
      else None)"

text \<open>
  The four replacements and the \<open>trim\<close> of the line map:
  \<open>/^[\*\-\<bullet>]\s+/\<close>, \<open>/^\d+\.\s+/\<close>, \<open>/^\*\*([^*]+)\*\*:?\s*/\<close> by
  \<open>'$1: '\<close>, and every \<open>**\<close>.
\<close>

definition optionalColon :: "jsstring \<Rightarrow> jsstring" where
  "optionalColon s = (case s of [] \<Rightarrow> [] | c # cs \<Rightarrow> if c = 58 then cs else s)"

fun removeBold :: "jsstring \<Rightarrow> jsstring" where
  "removeBold (c # d # cs) = (if c = 42 \<and> d = 42 then removeBold cs else c # removeBold (d # cs))"
| "removeBold cs = cs"

definition cleanLine :: "jsstring \<Rightarrow> jsstring" where
  "cleanLine line =
     (let l1 = (if markedLine line then dropWhile isWhiteSpace (drop 1 line) else line);
          l2 = (if ordinalLine l1 then dropWhile isWhiteSpace (drop 1 (dropWhile isDigit l1))
                else l1);
          l3 = (case boldLead l2 of
                  None \<Rightarrow> l2
                | Some (inner, after) \<Rightarrow>
                    inner @ js '': '' @ dropWhile isWhiteSpace (optionalColon after))
      in trim (removeBold l3))"

text \<open>A line that is nothing but a section name.\<close>

definition headingName :: "jsstring \<Rightarrow> bool" where
  "headingName line =
     (strengthsName line = Some [] \<or> improvementsName line = Some []
      \<or> missingName line = Some [] \<or> frameworksName line = Some [])"

definition extractBulletPoints_reparse :: "jsstring \<Rightarrow> jsstring list" where
  "extractBulletPoints_reparse text =
     (let lines =
        filter (\<lambda>line. length line > 0 \<and> \<not> headingName line)
          (map cleanLine
             (filter (\<lambda>line. markedLine line \<or> ordinalLine line \<or> boldLead line \<noteq> None)
                (map trim (splitLines text))))
      in if length lines > 0 then lines else [])"

definition parseExistingFeedback :: "jsstring \<Rightarrow> parsedFeedback" where
  "parseExistingFeedback rawText =
     \<lparr> strengths = map_option extractBulletPoints_reparse
         (matchSection
            (\<lambda>s. map_option (\<lambda>r. optionalStar (optionalStar (dropWhile isWhiteSpace r)))
                   (numberedHeading (js ''1'') strengthsName s))
            (lazyUntil (sectionEnds (js ''2''))) rawText),
       improvements = map_option extractBulletPoints_reparse
         (matchSection (numberedHeading (js ''2'') improvementsName)
            (lazyUntil (sectionEnds (js ''3''))) rawText),
       missing = map_option extractBulletPoints_reparse
         (matchSection (numberedHeading (js ''3'') missingName)
            (lazyUntil (sectionEnds (js ''4''))) rawText),
       frameworks = map_option extractBulletPoints_reparse
         (matchSection (numberedHeading (js ''4'') frameworksName) lazyUntilEnd rawText) \<rparr>"

text \<open>
  \<open>checkExistingFeedback\<close>: a stored record whose strengths are missing, empty or start
  with the heading text is parsed again from its raw text, and the sections found replace
  the stored ones (\<open>{...existingFeedback.feedback, ...reparsed}\<close>).
\<close>

definition needsReparsing :: "feedbackBody \<Rightarrow> bool" where
  "needsReparsing fb =
     (case strengths fb of
        None \<Rightarrow> True
      | Some [] \<Rightarrow> True
      | Some (first # rest) \<Rightarrow> first = js ''STRENGTHS'')"

definition orElse :: "'a option \<Rightarrow> 'a option \<Rightarrow> 'a option" where
  "orElse new old = (case new of None \<Rightarrow> old | Some v \<Rightarrow> Some v)"

definition shownFeedback :: "feedbackBody \<Rightarrow> feedbackBody" where
  "shownFeedback fb =
     (if needsReparsing fb \<and> content fb \<noteq> []
      then (let reparsed = parseExistingFeedback (content fb)
            in fb\<lparr> strengths := orElse (strengths reparsed) (strengths fb),
                   improvements := orElse (improvements reparsed) (improvements fb),
                   missing := orElse (missing reparsed) (missing fb),
                   frameworks := orElse (frameworks reparsed) (frameworks fb) \<rparr>)
      else fb)"


section \<open>\<open>pages/api/similar-cases.ts\<close>: the similarity search\<close>

text \<open>
  JavaScript numbers that are only copied (scores, counts of answers, averages) are
  \<open>real\<close>. \<open>topK\<close> is a count of results: the callers pass the literal 5, and
  for a count \<open>slice(0, topK)\<close> is \<open>take topK\<close>.
\<close>

record metadata =
  md_questionId :: jsstring
  md_title :: jsstring
  md_description :: jsstring
  md_type :: jsstring
  md_difficulty :: jsstring
  md_totalAnswers :: "real option"
  md_avgUpvotes :: "real option"

text \<open>One match of the vector index: \<open>{id, score, metadata}\<close>.\<close>

record match =
  matchId :: jsstring
  score :: real
  matchMetadata :: "metadata option"

record SimilarCase =
  sc_questionId :: jsstring
  sc_title :: jsstring
  sc_description :: jsstring
  sc_type :: jsstring
  sc_difficulty :: jsstring
  sc_similarity :: real
  sc_totalAnswers :: "real option"
  sc_avgUpvotes :: "real option"

text \<open>The request: its method and the fields read from \<open>req.body\<close>.\<close>

record request =
  reqMethod :: jsstring
  reqQuestionId :: "jsstring option"
  reqTitle :: "jsstring option"
  reqDescription :: "jsstring option"
  reqTopK :: "nat option"

text \<open>
  The two hosted services: \<open>openai.embeddings.create(...).data[0].embedding\<close> and
  \<open>index.query({vector, topK, includeMetadata: true}).matches\<close>. Either may throw.
\<close>

record 'v apiEnv =
  embed :: "jsstring \<Rightarrow> error + 'v"
  indexQuery :: "'v \<Rightarrow> nat \<Rightarrow> error + match list"

datatype apiBody = ErrorBody jsstring | SimilarCasesBody "SimilarCase list"
datatype apiReply = Reply nat apiBody

text \<open>\<open>x || 0\<close> on an optional number.\<close>

definition orZero :: "real option \<Rightarrow> real" where
  "orZero x = (case x of None \<Rightarrow> 0 | Some v \<Rightarrow> v)"

text \<open>
  The callback of \<open>.map\<close>: reading a field of a missing \<open>metadata\<close> throws a
  \<open>TypeError\<close>.
\<close>

definition formatMatch :: "match \<Rightarrow> SimilarCase option" where
  "formatMatch m =
     (case matchMetadata m of
        None \<Rightarrow> None
      | Some md \<Rightarrow>
          Some \<lparr> sc_questionId = md_questionId md, sc_title = md_title md,
                 sc_description = md_description md, sc_type = md_type md,
                 sc_difficulty = md_difficulty md, sc_similarity = score m,
                 sc_totalAnswers = Some (orZero (md_totalAnswers md)),
                 sc_avgUpvotes = Some (orZero (md_avgUpvotes md)) \<rparr>)"

text \<open>\<open>queryResponse.matches.filter(match => match.id !== questionId).slice(0, topK)\<close>.\<close>

definition selectMatches :: "jsstring \<Rightarrow> nat \<Rightarrow> match list \<Rightarrow> match list" where
  "selectMatches qid topK matches = take topK (filter (\<lambda>m. matchId m \<noteq> qid) matches)"

text \<open>The body of the handler's \<open>try\<close> block.\<close>

definition searchSimilar ::
  "'v apiEnv \<Rightarrow> jsstring \<Rightarrow> jsstring \<Rightarrow> jsstring \<Rightarrow> nat \<Rightarrow> error + SimilarCase list" where
  "searchSimilar env qid title description topK =
     (case embed env (title @ js ''\<newline>\<newline>'' @ description) of
        Inl err \<Rightarrow> Inl err
      | Inr queryEmbedding \<Rightarrow>
          (case indexQuery env queryEmbedding (topK + 1) of
             Inl err \<Rightarrow> Inl err
           | Inr matches \<Rightarrow>
               (case those (map formatMatch (selectMatches qid topK matches)) of
                  None \<Rightarrow> Inl TypeError
                | Some similarCases \<Rightarrow> Inr similarCases)))"

definition handler :: "'v apiEnv \<Rightarrow> request \<Rightarrow> apiReply" where
  "handler env req =
     (if reqMethod req \<noteq> js ''POST'' then Reply 405 (ErrorBody (js ''Method not allowed''))
      else (let topK = (case reqTopK req of None \<Rightarrow> 5 | Some k \<Rightarrow> k)
            in case (reqQuestionId req, reqTitle req, reqDescription req) of
                 (Some qid, Some title, Some description) \<Rightarrow>
                   if qid = [] \<or> title = [] \<or> description = []
                   then Reply 400 (ErrorBody (js ''Missing required fields''))
                   else (case searchSimilar env qid title description topK of
                           Inl err \<Rightarrow> Reply 500 (ErrorBody (js ''Failed to find similar cases''))
                         | Inr similarCases \<Rightarrow> Reply 200 (SimilarCasesBody similarCases))
               | _ \<Rightarrow> Reply 400 (ErrorBody (js ''Missing required fields''))))"


section \<open>\<open>pages/api/index-case.ts\<close>: what the index holds\<close>

text \<open>
  The fields of the request's optional \<open>metadata\<close> that the search reads back; the
  route spreads \<open>metadata\<close> last, so a field it holds replaces the route's own.
\<close>

record requestMetadata =
  rm_questionId :: "jsstring option"
  rm_title :: "jsstring option"
  rm_description :: "jsstring option"
  rm_type :: "jsstring option"
  rm_difficulty :: "jsstring option"
  rm_totalAnswers :: "real option"
  rm_avgUpvotes :: "real option"

text \<open>\<open>{ own, ...metadata }\<close> for one field: a field of \<open>metadata\<close> replaces the own one.\<close>

definition overriddenBy :: "'a \<Rightarrow> 'a option \<Rightarrow> 'a" where
  "overriddenBy own extra = (case extra of None \<Rightarrow> own | Some v \<Rightarrow> v)"

text \<open>
  The vector that the route upserts for a request, as a later query returns it with
  score \<open>s\<close>: \<open>id: questionId\<close> and
  \<open>metadata: {questionId, title, description: description.substring(0, 500), type,
  difficulty, ...metadata}\<close>.
\<close>

definition upsertedMatch ::
  "jsstring \<Rightarrow> jsstring \<Rightarrow> jsstring \<Rightarrow> jsstring \<Rightarrow> jsstring \<Rightarrow> requestMetadata \<Rightarrow> real
   \<Rightarrow> match" where
  "upsertedMatch qid title description type difficulty extra s =
     \<lparr> matchId = qid, score = s,
       matchMetadata = Some
         \<lparr> md_questionId = overriddenBy qid (rm_questionId extra),
           md_title = overriddenBy title (rm_title extra),
           md_description = overriddenBy (take 500 description) (rm_description extra),
           md_type = overriddenBy type (rm_type extra),
           md_difficulty = overriddenBy difficulty (rm_difficulty extra),
           md_totalAnswers = rm_totalAnswers extra,
           md_avgUpvotes = rm_avgUpvotes extra \<rparr> \<rparr>"

text \<open>A request without \<open>metadata\<close>, as every caller in the repository sends it.\<close>

definition noMetadata :: requestMetadata where
  "noMetadata =
     \<lparr> rm_questionId = None, rm_title = None, rm_description = None, rm_type = None,
       rm_difficulty = None, rm_totalAnswers = None, rm_avgUpvotes = None \<rparr>"


section \<open>\<open>VectorDBService\<close>: the client of the API routes\<close>

text \<open>
  The body of the \<open>try\<close> block of \<open>findSimilarCases\<close>. The JSON value is read at
  \<open>data.similarCases\<close>: \<open>None\<close> when there is nothing to read a \<open>length\<close> from
  (\<open>data\<close> is \<open>null\<close>, or has no such member), which throws a \<open>TypeError\<close>.
\<close>

definition similarCasesRequest :: "SimilarCase list option fetchResult \<Rightarrow> error + SimilarCase list" where
  "similarCasesRequest reply =
     (case reply of
        None \<Rightarrow> Inl TypeError
      | Some (Response ok status body) \<Rightarrow>
          if \<not> ok then Inl (Error (js ''API error: '' @ natToString status))
          else (case body of
                  NotJson \<Rightarrow> Inl SyntaxError
                | Json d \<Rightarrow>
                    (case d of None \<Rightarrow> Inl TypeError | Some similarCases \<Rightarrow> Inr similarCases)))"

text \<open>
  \<open>findSimilarCases\<close>: \<open>Inr\<close> is the value the promise resolves to, \<open>Inl\<close> would
  be a rejection. The \<open>catch\<close> answers every error with the empty list.
\<close>

definition findSimilarCases :: "SimilarCase list option fetchResult \<Rightarrow> error + SimilarCase list" where
  "findSimilarCases reply =
     (case similarCasesRequest reply of
        Inl err \<Rightarrow> Inr []
      | Inr similarCases \<Rightarrow> Inr similarCases)"

text \<open>
  What \<open>fetch('/api/similar-cases')\<close> gives when the request reaches the handler:
  \<open>response.ok\<close> is a status from 200 to 299, and only the 200 body has a
  \<open>similarCases\<close> member.
\<close>

definition overHttp :: "apiReply \<Rightarrow> SimilarCase list option fetchResult" where
  "overHttp reply =
     (case reply of
        Reply code body \<Rightarrow>
          Some (Response (200 \<le> code \<and> code \<le> 299) code
                  (Json (case body of
                           ErrorBody msg \<Rightarrow> None
                         | SimilarCasesBody similarCases \<Rightarrow> Some similarCases))))"

text \<open>
  \<open>indexCase\<close>: \<open>None\<close> when the promise resolves, \<open>Some e\<close> when it rejects with
  \<open>e\<close> (the \<open>catch\<close> logs and rethrows).
\<close>

definition indexCase :: "unit fetchResult \<Rightarrow> error option" where
  "indexCase reply =
     (case reply of
        None \<Rightarrow> Some TypeError
      | Some (Response ok status body) \<Rightarrow>
          if \<not> ok then Some (Error (js ''Failed to index case: '' @ natToString status))
          else None)"


section \<open>\<open>SimilarCases\<close>: the cached lookup of the component\<close>

record cacheEntry =
  entryData :: "SimilarCase list"
  entryTimestamp :: timestamp

text \<open>
  An item of \<open>localStorage\<close> as \<open>JSON.parse\<close> reads it: a text that does not
  parse, or the entry \<open>{data, timestamp}\<close> that \<open>JSON.stringify\<close> wrote.
\<close>

datatype storedItem = Unparsable | Parsed cacheEntry

text \<open>
  The module-level \<open>similarCasesCache\<close>, the browser's \<open>localStorage\<close> and the
  component's state (\<open>similarCases\<close>, \<open>loading\<close>, \<open>error\<close>).
\<close>

record browser =
  similarCasesCache :: "jsstring \<Rightarrow> cacheEntry option"
  localStorage :: "jsstring \<Rightarrow> storedItem option"
  similarCases :: "SimilarCase list"
  loading :: bool
  loadError :: "jsstring option"

text \<open>
  What one lookup meets: \<open>Date.now()\<close> in the \<open>try\<close> block and in the
  \<open>catch\<close> block, whether \<open>localStorage.setItem\<close> or \<open>getItem\<close> throws,
  and the awaited \<open>vectorDBService.findSimilarCases(questionId, title, description, 5)\<close>.
\<close>

record browserEnv =
  nowAtLookup :: timestamp
  nowAtFallback :: timestamp
  setItemFails :: bool
  getItemFails :: bool
  service :: "jsstring \<Rightarrow> jsstring \<Rightarrow> jsstring \<Rightarrow> nat \<Rightarrow> error + SimilarCase list"

definition CACHE_DURATION :: int where
  "CACHE_DURATION = 24 * 60 * 60 * 1000"

definition storageKey :: "jsstring \<Rightarrow> jsstring" where
  "storageKey qid = js ''similar_cases_'' @ qid"

definition loadFailedMessage :: jsstring where
  "loadFailedMessage = js ''Failed to load similar cases. Please try again later.''"

text \<open>The \<open>catch\<close> block: the entry of \<open>localStorage\<close>, if it is still fresh.\<close>

definition fallbackFromStorage :: "browserEnv \<Rightarrow> browser \<Rightarrow> jsstring \<Rightarrow> browser" where
  "fallbackFromStorage e b qid =
     (case (if getItemFails e then None else localStorage b (storageKey qid)) of
        Some (Parsed cached) \<Rightarrow>
          if nowAtFallback e - entryTimestamp cached < CACHE_DURATION
          then b\<lparr> similarCases := entryData cached, loading := False \<rparr>
          else b\<lparr> loadError := Some loadFailedMessage, loading := False \<rparr>
      | _ \<Rightarrow> b\<lparr> loadError := Some loadFailedMessage, loading := False \<rparr>)"

definition fetchSimilarCases ::
  "browserEnv \<Rightarrow> browser \<Rightarrow> jsstring \<Rightarrow> jsstring \<Rightarrow> jsstring \<Rightarrow> browser" where
  "fetchSimilarCases e b0 qid qtitle qdesc =
     (let b = b0\<lparr> loading := True, loadError := None \<rparr>;
          now = nowAtLookup e;
          fresh = (case similarCasesCache b qid of
                     None \<Rightarrow> None
                   | Some cached \<Rightarrow>
                       if now - entryTimestamp cached < CACHE_DURATION then Some cached
                       else None)
      in case fresh of
           Some cached \<Rightarrow> b\<lparr> similarCases := entryData cached, loading := False \<rparr>
         | None \<Rightarrow>
             (case service e qid qtitle qdesc 5 of
                Inr similar \<Rightarrow>
                  b\<lparr> similarCasesCache := (similarCasesCache b)(qid \<mapsto>
                         \<lparr> entryData = similar, entryTimestamp = now \<rparr>),
                     localStorage :=
                       (if setItemFails e then localStorage b
                        else (localStorage b)(storageKey qid \<mapsto>
                               Parsed \<lparr> entryData = similar, entryTimestamp = now \<rparr>)),
                     similarCases := similar,
                     loading := False \<rparr>
              | Inl err \<Rightarrow> fallbackFromStorage e b qid))"


section \<open>\<open>AdminVectorDB\<close>: indexing every case\<close>

datatype questionType = consulting | product
datatype difficultyLevel = easy | medium | hard

record Question =
  q_id :: jsstring
  q_title :: jsstring
  q_description :: jsstring
  q_type :: questionType
  q_difficulty :: difficultyLevel

datatype adminStatus = statusIdle | statusSuccess | statusError

text \<open>
  The texts the component shows, by their template: \<open>IndexingComplete s f n\<close> is
  \<open>`Indexing complete! ${s} successful, ${f} failed out of ${n} total.`\<close>,
  \<open>SuccessfullyIndexed n\<close> is \<open>`Successfully indexed ${n} cases!`\<close>, and
  \<open>FailedToIndexCases e\<close> is \<open>`Failed to index cases: ...`\<close> with the message of
  \<open>e\<close>.
\<close>

datatype adminMessage =
    NoMessage
  | StartingIndexing
  | SuccessfullyIndexed nat
  | FailedToIndexCases error
  | IndexingComplete nat nat nat
  | IndexingFailed

text \<open>
  The component's state, and \<open>indexCalls\<close>: the ids \<open>indexCase\<close> was called with, in
  order, which the sources do not keep. The pause of 300 ms between items is not
  modelled.
\<close>

record adminUi =
  indexing :: bool
  progress :: "nat \<times> nat"
  status :: adminStatus
  adminMessage :: adminMessage
  indexCalls :: "jsstring list"

text \<open>
  What a run meets: whether the admin confirms, the \<open>questions\<close> collection (or the
  error of reading it), and the reply of \<open>/api/index-case\<close> to the \<open>i\<close>-th request.
\<close>

record adminEnv =
  confirmed :: bool
  questionsQuery :: "error + Question list"
  indexFetch :: "nat \<Rightarrow> Question \<Rightarrow> unit fetchResult"

text \<open>
  The loop of \<open>src/components/AdminVectorDB.tsx\<close>: no \<open>try\<close> inside, so the first
  rejection leaves the loop.
\<close>

fun indexEach ::
  "(nat \<Rightarrow> Question \<Rightarrow> unit fetchResult) \<Rightarrow> nat \<Rightarrow> nat \<Rightarrow> Question list \<Rightarrow> adminUi
   \<Rightarrow> error option \<times> adminUi" where
  "indexEach fetch i len [] ui = (None, ui)"
| "indexEach fetch i len (question # rest) ui =
     (let ui1 = ui\<lparr> indexCalls := indexCalls ui @ [q_id question] \<rparr>
      in case indexCase (fetch i question) of
           Some err \<Rightarrow> (Some err, ui1)
         | None \<Rightarrow> indexEach fetch (i + 1) len rest (ui1\<lparr> progress := (i + 1, len) \<rparr>))"

definition indexAllCases :: "adminEnv \<Rightarrow> adminUi \<Rightarrow> adminUi" where
  "indexAllCases e ui0 =
     (let ui = ui0\<lparr> indexing := True, status := statusIdle, adminMessage := NoMessage \<rparr>
      in case questionsQuery e of
           Inl err \<Rightarrow>
             ui\<lparr> status := statusError, adminMessage := FailedToIndexCases err,
                indexing := False \<rparr>
         | Inr questions \<Rightarrow>
             (case indexEach (indexFetch e) 0 (length questions) questions
                     (ui\<lparr> progress := (0, length questions) \<rparr>) of
                (Some err, ui1) \<Rightarrow>
                  ui1\<lparr> status := statusError, adminMessage := FailedToIndexCases err,
                      indexing := False \<rparr>
              | (None, ui1) \<Rightarrow>
                  ui1\<lparr> status := statusSuccess,
                      adminMessage := SuccessfullyIndexed (length questions),
                      indexing := False \<rparr>))"

text \<open>
  The loop of the client-side version of the same component: each call stands in its own
  \<open>try\<close>, a rejection is counted and the loop goes on.
\<close>

fun indexEachCounting ::
  "(nat \<Rightarrow> Question \<Rightarrow> unit fetchResult) \<Rightarrow> nat \<Rightarrow> nat \<Rightarrow> Question list \<Rightarrow> nat \<Rightarrow> nat
   \<Rightarrow> adminUi \<Rightarrow> nat \<times> nat \<times> adminUi" where
  "indexEachCounting fetch i len [] successCount failCount ui = (successCount, failCount, ui)"
| "indexEachCounting fetch i len (question # rest) successCount failCount ui =
     (let ui1 = ui\<lparr> indexCalls := indexCalls ui @ [q_id question] \<rparr>
      in case indexCase (fetch i question) of
           None \<Rightarrow>
             indexEachCounting fetch (i + 1) len rest (successCount + 1) failCount
               (ui1\<lparr> progress := (i + 1, len) \<rparr>)
         | Some err \<Rightarrow>
             indexEachCounting fetch (i + 1) len rest successCount (failCount + 1) ui1)"

definition indexAllCases_clientSide :: "adminEnv \<Rightarrow> adminUi \<Rightarrow> adminUi" where
  "indexAllCases_clientSide e ui0 =
     (if \<not> confirmed e then ui0
      else (let ui = ui0\<lparr> indexing := True, status := statusIdle,
                          adminMessage := StartingIndexing \<rparr>
            in case questionsQuery e of
                 Inl err \<Rightarrow>
                   ui\<lparr> status := statusError, adminMessage := IndexingFailed,
                      indexing := False \<rparr>
               | Inr questions \<Rightarrow>
                   (case indexEachCounting (indexFetch e) 0 (length questions) questions 0 0
                           (ui\<lparr> progress := (0, length questions) \<rparr>) of
                      (successCount, failCount, ui1) \<Rightarrow>
                        ui1\<lparr> status := statusSuccess,
                            adminMessage :=
                              IndexingComplete successCount failCount (length questions),
                            indexing := False \<rparr>)))"


section \<open>Concrete scenarios\<close>

text \<open>The inputs at which the theorems below are evaluated.\<close>

text \<open>\<open>toLowerCase\<close> on a text of ASCII characters.\<close>

definition asciiLowerCase :: "jsstring \<Rightarrow> jsstring" where
  "asciiLowerCase s = map (\<lambda>c. if 65 \<le> c \<and> c \<le> 90 then c + 32 else c) s"

text \<open>
  A model reply in the layout the prompt asks for: the four numbered headings, two dash
  bullets under the first and one numbered bullet under the second.
\<close>

definition sampleFeedback :: jsstring where
  "sampleFeedback =
     js ''1. STRENGTHS\<newline>- A\<newline>- B\<newline>2. AREAS FOR IMPROVEMENT\<newline>1. C\<newline>3. MISSING CONSIDERATIONS\<newline>4. FRAMEWORK SUGGESTIONS''"

definition longAnswer :: jsstring where
  "longAnswer =
     js ''We would segment the market, size each segment and compare the margins.''"

definition shortAnswer :: jsstring where
  "shortAnswer = js ''  Raise the prices.  ''"

definition exampleEnv :: env where
  "exampleEnv =
     \<lparr> toLowerCase = asciiLowerCase,
       todayAtStats = js ''2024-06-01'',
       todayAtIncrement = js ''2024-06-01'',
       queryFeedbackFails = None,
       getLimitFails = None,
       apiKey = js ''key'',
       geminiFetch = (\<lambda>prompt. Some (Response True 200 (Json (Some sampleFeedback)))),
       incrementGetFails = None,
       incrementWriteFails = None,
       addDocResult = Inr (js ''doc-2''),
       serverTimeAtIncrement = 1717236000000,
       serverTimeAtAdd = 1717236000100,
       clientTime = 1717236000200 \<rparr>"

definition exampleRecord :: AIFeedback where
  "exampleRecord =
     \<lparr> docId = js ''doc-1'', answerId = js ''answer-1'', userId = js ''user-1'',
       questionId = js ''case-1'', questionTitle = js ''Pricing'',
       userAnswer = longAnswer,
       feedback = withContent sampleFeedback (parseFeedbackContent sampleFeedback),
       generatedAt = 1717200000000, createdAt = 1717200000000 \<rparr>"

definition emptyWorld :: world where
  "emptyWorld = \<lparr> aiFeedback = [], dailyLimits = (\<lambda>key. None), geminiCalls = 0 \<rparr>"

text \<open>A world where \<open>user-1\<close> has used \<open>n\<close> requests on 2024-06-01.\<close>

definition worldWithCount :: "int \<Rightarrow> world" where
  "worldWithCount n =
     emptyWorld\<lparr> dailyLimits := (\<lambda>key. None)(limitDocId (js ''user-1'') (js ''2024-06-01'') \<mapsto>
       \<lparr> limitUserId = js ''user-1'', date = js ''2024-06-01'', requestCount = n,
         lastRequestAt = Some 1717200000000 \<rparr>) \<rparr>"

text \<open>A world that holds one feedback record, for \<open>answer-1\<close>.\<close>

definition worldWithRecord :: world where
  "worldWithRecord = (worldWithCount 1)\<lparr> aiFeedback := [exampleRecord] \<rparr>"

text \<open>The stored documents for an answer, and the stored count under a key.\<close>

definition storedFor :: "world \<Rightarrow> jsstring \<Rightarrow> AIFeedback list" where
  "storedFor w aid = filter (\<lambda>d. answerId d = aid) (aiFeedback w)"

definition storedCount :: "world \<Rightarrow> jsstring \<Rightarrow> int" where
  "storedCount w key = (case dailyLimits w key of None \<Rightarrow> 0 | Some d \<Rightarrow> requestCount d)"

definition exampleMetadata :: "jsstring \<Rightarrow> metadata" where
  "exampleMetadata qid =
     \<lparr> md_questionId = qid, md_title = js ''Case'', md_description = js ''A case'',
       md_type = js ''consulting'', md_difficulty = js ''easy'',
       md_totalAnswers = None, md_avgUpvotes = None \<rparr>"

definition exampleMatch :: "jsstring \<Rightarrow> real \<Rightarrow> match" where
  "exampleMatch qid s =
     \<lparr> matchId = qid, score = s, matchMetadata = Some (exampleMetadata qid) \<rparr>"

text \<open>An index that ranks the queried case \<open>case-1\<close> first.\<close>

definition exampleApi :: "unit apiEnv" where
  "exampleApi =
     \<lparr> embed = (\<lambda>text. Inr ()),
       indexQuery = (\<lambda>v k. Inr (take k
         [exampleMatch (js ''case-1'') 1, exampleMatch (js ''case-2'') 0.9,
          exampleMatch (js ''case-3'') 0.8, exampleMatch (js ''case-4'') 0.7])) \<rparr>"

text \<open>
  An index with two vectors written through \<open>pages/api/index-case.ts\<close>: \<open>case-1\<close>,
  and \<open>case-2\<close> from a request whose \<open>metadata\<close> names \<open>case-1\<close> as its
  \<open>questionId\<close>.
\<close>

definition mislabelledApi :: "unit apiEnv" where
  "mislabelledApi =
     \<lparr> embed = (\<lambda>text. Inr ()),
       indexQuery = (\<lambda>v k. Inr (take k
         [upsertedMatch (js ''case-1'') (js ''Case'') (js ''A case'') (js ''consulting'')
            (js ''easy'') noMetadata 1,
          upsertedMatch (js ''case-2'') (js ''Case'') (js ''A case'') (js ''consulting'')
            (js ''easy'') (noMetadata\<lparr> rm_questionId := Some (js ''case-1'') \<rparr>) 0.9])) \<rparr>"

definition exampleRequest :: request where
  "exampleRequest =
     \<lparr> reqMethod = js ''POST'', reqQuestionId = Some (js ''case-1''),
       reqTitle = Some (js ''Pricing''), reqDescription = Some (js ''Set a price''),
       reqTopK = Some 2 \<rparr>"

definition exampleCase :: SimilarCase where
  "exampleCase =
     \<lparr> sc_questionId = js ''case-2'', sc_title = js ''Case'', sc_description = js ''A case'',
       sc_type = js ''consulting'', sc_difficulty = js ''easy'', sc_similarity = 0.9,
       sc_totalAnswers = Some 0, sc_avgUpvotes = Some 0 \<rparr>"



definition exampleQuestion :: "jsstring \<Rightarrow> Question" where
  "exampleQuestion qid =
     \<lparr> q_id = qid, q_title = js ''Case'', q_description = js ''A case'',
       q_type = consulting, q_difficulty = easy \<rparr>"

definition idleUi :: adminUi where
  "idleUi =
     \<lparr> indexing = False, progress = (0, 0), status = statusIdle, adminMessage = NoMessage,
       indexCalls = [] \<rparr>"

text \<open>A corpus of three cases where indexing the first one is answered with status 500.\<close>

definition firstFailsEnv :: adminEnv where
  "firstFailsEnv =
     \<lparr> confirmed = True,
       questionsQuery = Inr [exampleQuestion (js ''case-1''), exampleQuestion (js ''case-2''),
                             exampleQuestion (js ''case-3'')],
       indexFetch = (\<lambda>i question.
         if i = 0 then Some (Response False 500 NotJson)
         else Some (Response True 200 (Json ()))) \<rparr>"


text \<open>The environment of \<open>exampleEnv\<close> with one operation failing.\<close>

definition lookupFailsEnv :: env where
  "lookupFailsEnv =
     exampleEnv\<lparr> queryFeedbackFails := Some (FirebaseError (js ''permission-denied'')) \<rparr>"

definition limitUnreadableEnv :: env where
  "limitUnreadableEnv =
     exampleEnv\<lparr> getLimitFails := Some (FirebaseError (js ''unavailable'')) \<rparr>"

definition offlineGeminiEnv :: env where
  "offlineGeminiEnv = exampleEnv\<lparr> geminiFetch := (\<lambda>prompt. None) \<rparr>"

definition student :: "jsstring option" where
  "student = Some (js ''student@example.com'')"

text \<open>A request of \<open>user-1\<close>, not an admin, for feedback on one answer to \<open>case-1\<close>.\<close>

definition requestBy ::
  "env \<Rightarrow> world \<Rightarrow> jsstring \<Rightarrow> jsstring \<Rightarrow> (error + AIFeedback) \<times> world" where
  "requestBy e w aid answer =
     generateFeedback e w aid (js ''user-1'') student (js ''case-1'') (js ''Pricing'')
       (js ''Set a price'') answer"

definition todayKey :: jsstring where
  "todayKey = limitDocId (js ''user-1'') (js ''2024-06-01'')"



text \<open>Whether the memory cache holds an entry for the case that is younger than a day.\<close>

definition hasFreshMemoryEntry :: "browserEnv \<Rightarrow> browser \<Rightarrow> jsstring \<Rightarrow> bool" where
  "hasFreshMemoryEntry e b qid =
     (case similarCasesCache b qid of
        None \<Rightarrow> False
      | Some cached \<Rightarrow> nowAtLookup e - entryTimestamp cached < CACHE_DURATION)"


text \<open>
  A match whose metadata names the id it is stored under, as \<open>pages/api/index-case.ts\<close>
  writes it (\<open>id: questionId\<close>, \<open>metadata: {questionId, ...}\<close>).
\<close>

definition indexedUnderOwnId :: "match \<Rightarrow> bool" where
  "indexedUnderOwnId m =
     (case matchMetadata m of None \<Rightarrow> True | Some md \<Rightarrow> md_questionId md = matchId m)"


section \<open>Evaluating the scenarios\<close>

lemmas feedback_defs =
  generateFeedback_def getFeedbackForAnswer_def canRequestFeedback_def getUserDailyStats_def
  incrementDailyCount_def generateInsightsForAnswer_def insightsRequest_def isUserAdmin_def
  ADMIN_EMAILS_def DAILY_LIMIT_def limitDocId_def Let_def

lemmas scenario_defs =
  exampleEnv_def worldWithCount_def emptyWorld_def worldWithRecord_def exampleRecord_def
  asciiLowerCase_def storedFor_def storedCount_def student_def requestBy_def todayKey_def
  lookupFailsEnv_def limitUnreadableEnv_def offlineGeminiEnv_def


lemma trimmed_lengths: "length (trim longAnswer) = 71" "length (trim shortAnswer) = 17"
  by (simp_all add: longAnswer_def shortAnswer_def trim_def js_def isWhiteSpace_def)

lemma limitMessage_text:
  "limitMessage
     = js ''You've reached your daily limit of 3 AI feedback requests. Limit resets at midnight.''"
  by (simp add: limitMessage_def DAILY_LIMIT_def intToString_def natToString.simps js_def)

lemma limitMessage_not_empty: "limitMessage \<noteq> []"
  by (simp add: limitMessage_def js_def)

lemma messages_differ: "limitMessage \<noteq> tooShortMessage"
  by (simp add: limitMessage_def tooShortMessage_def js_def)

lemma sampleFeedback_not_empty: "sampleFeedback \<noteq> []"
  by (simp add: sampleFeedback_def js_def)


lemma example_search:
  "handler exampleApi exampleRequest
     = Reply 200 (SimilarCasesBody
         [exampleCase, exampleCase\<lparr> sc_questionId := js ''case-3'', sc_similarity := 0.8 \<rparr>])"
  by (simp add: handler_def searchSimilar_def selectMatches_def formatMatch_def exampleApi_def
      exampleRequest_def exampleMatch_def exampleMetadata_def exampleCase_def orZero_def Let_def
      js_def)


section \<open>Lemmas about the operations\<close>






lemma those_map_Some:
  "those (map f xs) = Some ys \<Longrightarrow> map Some ys = map f xs"
  by (induction xs arbitrary: ys) (auto split: option.splits)

lemma selectMatches_length: "length (selectMatches qid k ms) \<le> k"
  by (simp add: selectMatches_def)

lemma selectMatches_set:
  "m \<in> set (selectMatches qid k ms) \<Longrightarrow> matchId m \<noteq> qid \<and> m \<in> set ms"
  unfolding selectMatches_def by (auto dest: in_set_takeD)

lemma formatted_case_id:
  assumes "map Some cs = map formatMatch ms" and "c \<in> set cs"
  shows "\<exists>m md. m \<in> set ms \<and> matchMetadata m = Some md \<and> sc_questionId c = md_questionId md"
proof -
  from assms have "Some c \<in> set (map formatMatch ms)"
    by (metis imageI set_map)
  then obtain m where "m \<in> set ms" "formatMatch m = Some c" by auto
  then show ?thesis
    by (auto simp: formatMatch_def split: option.splits)
qed

text \<open>A vector written from a request without \<open>metadata\<close> names its own id.\<close>

lemma upserted_without_metadata: "indexedUnderOwnId (upsertedMatch qid t d ty df noMetadata s)"
  by (simp add: indexedUnderOwnId_def upsertedMatch_def noMetadata_def overriddenBy_def)

text \<open>
  With the service of the repository a failed remote call does not enter the \<open>catch\<close>
  block of the lookup: the service resolves to the empty list, which the lookup shows
  and writes to both caches.
\<close>

lemma failed_remote_call_is_shown_as_empty:
  assumes "\<not> hasFreshMemoryEntry e b qid"
    and "service e qid qtitle qdesc 5 = findSimilarCases reply"
    and "similarCasesRequest reply = Inl err"
  shows "fetchSimilarCases e b qid qtitle qdesc
           = b\<lparr> loading := False, loadError := None, similarCases := [],
                similarCasesCache := (similarCasesCache b)(qid \<mapsto>
                  \<lparr> entryData = [], entryTimestamp = nowAtLookup e \<rparr>),
                localStorage :=
                  (if setItemFails e then localStorage b
                   else (localStorage b)(storageKey qid \<mapsto>
                          Parsed \<lparr> entryData = [], entryTimestamp = nowAtLookup e \<rparr>)) \<rparr>"
  using assms
  by (auto simp: fetchSimilarCases_def hasFreshMemoryEntry_def findSimilarCases_def Let_def
      split: option.splits)

text \<open>
  The counting loop of the client-side version visits every case and counts each one
  once, as a success or as a failure.
\<close>

lemma indexEachCounting_counts:
  "indexEachCounting fetch i len qs s f ui = (s', f', ui')
   \<Longrightarrow> s' + f' = s + f + length qs \<and> indexCalls ui' = indexCalls ui @ map q_id qs"
proof (induction qs arbitrary: i s f ui)
  case Nil
  then show ?case by simp
next
  case (Cons q qs)
  show ?case
  proof (cases "indexCase (fetch i q)")
    case None
    with Cons.prems have
      "indexEachCounting fetch (i + 1) len qs (s + 1) f
         (ui\<lparr> indexCalls := indexCalls ui @ [q_id q], progress := (i + 1, len) \<rparr>) = (s', f', ui')"
      by (simp add: Let_def)
    from Cons.IH [OF this] show ?thesis by simp
  next
    case (Some err)
    with Cons.prems have
      "indexEachCounting fetch (i + 1) len qs s (f + 1)
         (ui\<lparr> indexCalls := indexCalls ui @ [q_id q] \<rparr>) = (s', f', ui')"
      by (simp add: Let_def)
    from Cons.IH [OF this] show ?thesis by simp
  qed
qed

lemma clientSide_indexer_counts_every_case:
  assumes "confirmed e" and "questionsQuery e = Inr questions"
  shows "\<exists>successCount failCount.
           adminMessage (indexAllCases_clientSide e ui)
             = IndexingComplete successCount failCount (length questions)
           \<and> successCount + failCount = length questions
           \<and> status (indexAllCases_clientSide e ui) = statusSuccess
           \<and> indexCalls (indexAllCases_clientSide e ui) = indexCalls ui @ map q_id questions"
proof -
  obtain s f ui' where run:
    "indexEachCounting (indexFetch e) 0 (length questions) questions 0 0
       (ui\<lparr> indexing := True, status := statusIdle, adminMessage := StartingIndexing,
            progress := (0, length questions) \<rparr>) = (s, f, ui')"
    by (metis prod_cases3)
  from indexEachCounting_counts [OF run] assms run show ?thesis
    by (simp add: indexAllCases_clientSide_def Let_def)
qed

lemma clientSide_on_first_failure:
  "indexAllCases_clientSide firstFailsEnv idleUi
     = \<lparr> indexing = False, progress = (3, 3), status = statusSuccess,
         adminMessage = IndexingComplete 2 1 3,
         indexCalls = [js ''case-1'', js ''case-2'', js ''case-3''] \<rparr>"
  by (simp add: indexAllCases_clientSide_def firstFailsEnv_def idleUi_def indexCase_def
      exampleQuestion_def Let_def)


text \<open>The parser of the service on \<open>sampleFeedback\<close>.\<close>

lemma service_parser_on_sample:
  "parseFeedbackContent sampleFeedback
     = \<lparr> strengths = Some [js ''STRENGTHS'', js ''A'', js ''B''],
         improvements = Some [js ''AREAS FOR IMPROVEMENT''],
         missing = Some [js ''MISSING CONSIDERATIONS''],
         frameworks = Some [js ''FRAMEWORK SUGGESTIONS''] \<rparr>"
  by code_simp

text \<open>
  The re-parser of the components on \<open>sampleFeedback\<close>, section by section: it ends a
  section at the next section number and drops the heading lines.
\<close>

lemma reparse_section_1:
  "matchSection
            (\<lambda>s. map_option (\<lambda>r. optionalStar (optionalStar (dropWhile isWhiteSpace r)))
                   (numberedHeading (js ''1'') strengthsName s))
            (lazyUntil (sectionEnds (js ''2''))) sampleFeedback = Some (js ''1. STRENGTHS\<newline>- A\<newline>- B\<newline>'')"
  by code_simp


lemma reparse_section_2:
  "matchSection (numberedHeading (js ''2'') improvementsName)
            (lazyUntil (sectionEnds (js ''3''))) sampleFeedback
     = Some (js ''2. AREAS FOR IMPROVEMENT\<newline>1. C\<newline>'')"
  by code_simp

lemma reparse_section_3:
  "matchSection (numberedHeading (js ''3'') missingName)
            (lazyUntil (sectionEnds (js ''4''))) sampleFeedback
     = Some (js ''3. MISSING CONSIDERATIONS\<newline>'')"
  by code_simp

lemma reparse_section_4:
  "matchSection (numberedHeading (js ''4'') frameworksName) lazyUntilEnd sampleFeedback
     = Some (js ''4. FRAMEWORK SUGGESTIONS'')"
  by code_simp

lemma reparse_bullets_1: "extractBulletPoints_reparse (js ''1. STRENGTHS\<newline>- A\<newline>- B\<newline>'') = [js ''A'', js ''B'']"
  by code_simp

lemma reparse_bullets_2: "extractBulletPoints_reparse (js ''2. AREAS FOR IMPROVEMENT\<newline>1. C\<newline>'') = [js ''C'']"
  by code_simp

lemma reparse_bullets_3: "extractBulletPoints_reparse (js ''3. MISSING CONSIDERATIONS\<newline>'') = []"
  by code_simp

lemma reparse_bullets_4: "extractBulletPoints_reparse (js ''4. FRAMEWORK SUGGESTIONS'') = []"
  by code_simp

lemma reparser_on_sample_feedback:
  "parseExistingFeedback sampleFeedback
     = \<lparr> strengths = Some [js ''A'', js ''B''], improvements = Some [js ''C''],
         missing = Some [], frameworks = Some [] \<rparr>"
  unfolding parseExistingFeedback_def reparse_section_1 reparse_section_2 reparse_section_3
    reparse_section_4
  by (simp add: reparse_bullets_1 reparse_bullets_2 reparse_bullets_3 reparse_bullets_4)


text \<open>
  A record stored by the service for \<open>sampleFeedback\<close> is one the components parse
  again, and what they show has \<open>A\<close>, \<open>B\<close> as strengths and \<open>C\<close> as the
  improvement.
\<close>

lemma component_shows_reparsed_sections:
  "needsReparsing (withContent sampleFeedback (parseFeedbackContent sampleFeedback))
   \<and> shownFeedback (withContent sampleFeedback (parseFeedbackContent sampleFeedback))
       = withContent sampleFeedback
           \<lparr> strengths = Some [js ''A'', js ''B''], improvements = Some [js ''C''],
             missing = Some [], frameworks = Some [] \<rparr>"
  by (simp add: shownFeedback_def needsReparsing_def withContent_def orElse_def Let_def
      service_parser_on_sample reparser_on_sample_feedback sampleFeedback_not_empty)


section \<open>The claims about the feedback pipeline\<close>




text \<open>
  Claim C2. For a user who is not an admin, whose count document for today is read and
  holds \<open>requestCount = 3\<close>, the limit, the quota check answers not allowed, with no
  requests remaining and the message that names the limit of 3; and
  \<open>generateFeedback\<close>, when the lookup finds no record, fails with an \<open>Error\<close> of
  that message and leaves the world as it was: no model call, no document, no count
  changed. (A read that throws is the case of claim C6.)
\<close>

theorem quota_enforced_when_count_is_read:
  assumes "\<not> isUserAdmin (toLowerCase e) email"
    and "getLimitFails e = None"
    and "dailyLimits w (limitDocId uid (todayAtStats e)) = Some d"
    and "requestCount d = DAILY_LIMIT"
  shows "canRequestFeedback e w uid email
           = \<lparr> allowed = False, remaining = 0, message = Some limitMessage \<rparr>
         \<and> (getFeedbackForAnswer e w aid = None
              \<longrightarrow> generateFeedback e w aid uid email qid qtitle qdesc answer
                    = (Inl (Error limitMessage), w))
         \<and> limitMessage
             = js ''You've reached your daily limit of 3 AI feedback requests. Limit resets at midnight.''"
  using assms limitMessage_text
  by (simp add: generateFeedback_def canRequestFeedback_def getUserDailyStats_def Let_def
      limitMessage_not_empty)

theorem quota_enforced_when_count_is_read_witness:
  "\<not> isUserAdmin (toLowerCase exampleEnv) student
   \<and> getLimitFails exampleEnv = None
   \<and> map_option requestCount (dailyLimits (worldWithCount 3)
         (limitDocId (js ''user-1'') (todayAtStats exampleEnv))) = Some DAILY_LIMIT
   \<and> getFeedbackForAnswer exampleEnv (worldWithCount 3) (js ''answer-2'') = None
   \<and> canRequestFeedback exampleEnv (worldWithCount 3) (js ''user-1'') student
       = \<lparr> allowed = False, remaining = 0, message = Some limitMessage \<rparr>
   \<and> requestBy exampleEnv (worldWithCount 3) (js ''answer-2'') longAnswer
       = (Inl (Error limitMessage), worldWithCount 3)"
  using quota_enforced_when_count_is_read
    [of exampleEnv student "worldWithCount 3" "js ''user-1''"
        "\<lparr> limitUserId = js ''user-1'', date = js ''2024-06-01'', requestCount = 3,
           lastRequestAt = Some 1717200000000 \<rparr>"
        "js ''answer-2'' " "js ''case-1''" "js ''Pricing''" "js ''Set a price''" longAnswer]
  by (simp add: scenario_defs isUserAdmin_def ADMIN_EMAILS_def DAILY_LIMIT_def
      getFeedbackForAnswer_def limitDocId_def js_def)

text \<open>
  Claim C3. When the model call throws, the stored feedback documents and the stored
  counts after \<open>generateFeedback\<close> are those before it; and when the call is made (no
  record found, the quota check allows, the trimmed answer has 50 code units or more)
  the result is that error, and the only change of the world is the count of model
  calls.
\<close>

theorem generation_failure_changes_nothing:
  assumes "generateInsightsForAnswer (apiKey e) (geminiFetch e) qtitle qdesc answer = Inl err"
  shows "aiFeedback (snd (generateFeedback e w aid uid email qid qtitle qdesc answer))
           = aiFeedback w
       \<and> dailyLimits (snd (generateFeedback e w aid uid email qid qtitle qdesc answer))
           = dailyLimits w
       \<and> (getFeedbackForAnswer e w aid = None \<and> allowed (canRequestFeedback e w uid email)
            \<and> 50 \<le> length (trim answer)
          \<longrightarrow> generateFeedback e w aid uid email qid qtitle qdesc answer
                = (Inl err, w\<lparr> geminiCalls := geminiCalls w + 1 \<rparr>))"
  using assms by (simp add: generateFeedback_def Let_def split: option.splits)

theorem generation_failure_changes_nothing_witness:
  "generateInsightsForAnswer (apiKey offlineGeminiEnv) (geminiFetch offlineGeminiEnv)
       (js ''Pricing'') (js ''Set a price'') longAnswer
     = Inl (Error (js ''Failed to generate feedback''))
   \<and> getFeedbackForAnswer offlineGeminiEnv (worldWithCount 1) (js ''answer-2'') = None
   \<and> allowed (canRequestFeedback offlineGeminiEnv (worldWithCount 1) (js ''user-1'') student)
   \<and> 50 \<le> length (trim longAnswer)
   \<and> requestBy offlineGeminiEnv (worldWithCount 1) (js ''answer-2'') longAnswer
       = (Inl (Error (js ''Failed to generate feedback'')),
          (worldWithCount 1)\<lparr> geminiCalls := 1 \<rparr>)
   \<and> storedCount (snd (requestBy offlineGeminiEnv (worldWithCount 1) (js ''answer-2'')
        longAnswer)) todayKey = 1
   \<and> aiFeedback (snd (requestBy offlineGeminiEnv (worldWithCount 1) (js ''answer-2'')
        longAnswer)) = []"
  using generation_failure_changes_nothing
    [of offlineGeminiEnv "js ''Pricing''" "js ''Set a price''" longAnswer
        "Error (js ''Failed to generate feedback'')" "worldWithCount 1" "js ''answer-2''"
        "js ''user-1''" student "js ''case-1''"]
  by (simp add: feedback_defs scenario_defs trimmed_lengths)
     (simp add: js_def)

text \<open>
  Claim C4, as the code has it: the quota check comes before the validation of the
  answer. When the lookup finds no record and the trimmed answer is shorter than 50 code
  units, \<open>generateFeedback\<close> fails with the too-short error if the quota check allows
  the user, and with the daily-limit error if it does not; in both cases the world stays
  as it was.
  The claim as stated, that a too-short answer yields the validation error whatever the
  quota, fails for a user at the limit.
\<close>

theorem quota_check_precedes_validation:
  assumes "getFeedbackForAnswer e w aid = None" and "length (trim answer) < 50"
  shows "generateFeedback e w aid uid email qid qtitle qdesc answer
           = (if allowed (canRequestFeedback e w uid email)
              then (Inl (Error tooShortMessage), w)
              else (Inl (Error limitMessage), w))"
  using assms
  by (simp add: generateFeedback_def canRequestFeedback_def Let_def limitMessage_not_empty)

theorem quota_check_precedes_validation_witness:
  "getFeedbackForAnswer exampleEnv (worldWithCount 1) (js ''answer-2'') = None
   \<and> length (trim shortAnswer) < 50
   \<and> allowed (canRequestFeedback exampleEnv (worldWithCount 1) (js ''user-1'') student)
   \<and> requestBy exampleEnv (worldWithCount 1) (js ''answer-2'') shortAnswer
       = (Inl (Error tooShortMessage), worldWithCount 1)"
  using quota_check_precedes_validation
    [of exampleEnv "worldWithCount 1" "js ''answer-2''" shortAnswer "js ''user-1''" student
        "js ''case-1''" "js ''Pricing''" "js ''Set a price''"]
  by (simp add: scenario_defs isUserAdmin_def ADMIN_EMAILS_def DAILY_LIMIT_def
      getFeedbackForAnswer_def canRequestFeedback_def getUserDailyStats_def limitDocId_def
      trimmed_lengths js_def)

text \<open>
  Claim C4 as stated fails: no record is stored for \<open>answer-2\<close>, the trimmed answer has
  17 code units, the user has used 3 requests, and the call fails with the daily-limit
  error, which is not the too-short error.
\<close>

theorem short_answer_at_limit_counterexample:
  "storedFor (worldWithCount 3) (js ''answer-2'') = []
   \<and> length (trim shortAnswer) < 50
   \<and> requestBy exampleEnv (worldWithCount 3) (js ''answer-2'') shortAnswer
       = (Inl (Error limitMessage), worldWithCount 3)
   \<and> Error limitMessage \<noteq> Error tooShortMessage"
  using messages_differ
  by (simp add: feedback_defs scenario_defs trimmed_lengths limitMessage_not_empty)
     (simp add: js_def)

text \<open>
  Claim C5 at the layout the prompt asks for: on \<open>sampleFeedback\<close> (the four numbered
  headings, \<open>- A\<close> and \<open>- B\<close> under the first, \<open>1. C\<close> under the second) the parser
  of \<open>FeedbackService\<close> emits each heading line as a bullet and loses \<open>C\<close>, since a
  section ends before the first digit followed by a dot and the filter takes a numbered
  heading for a numbered bullet. The components parse such a record again and show
  \<open>A\<close>, \<open>B\<close> and \<open>C\<close> (\<open>component_shows_reparsed_sections\<close>).
\<close>

theorem parser_on_sample_feedback:
  "parseFeedbackContent sampleFeedback
     = \<lparr> strengths = Some [js ''STRENGTHS'', js ''A'', js ''B''],
         improvements = Some [js ''AREAS FOR IMPROVEMENT''],
         missing = Some [js ''MISSING CONSIDERATIONS''],
         frameworks = Some [js ''FRAMEWORK SUGGESTIONS''] \<rparr>"
  by (rule service_parser_on_sample)

text \<open>
  Claim C6. For a user who is not an admin (an admin's count is never read), when the
  read of the count document throws, \<open>getUserDailyStats\<close> reports 0 used and the full
  limit remaining, whatever is stored, and the quota check allows the request.
\<close>

theorem quota_read_fails_open:
  assumes "\<not> isUserAdmin (toLowerCase e) email" and "getLimitFails e = Some err"
  shows "getUserDailyStats e w uid email
           = \<lparr> totalRequests = 0, remainingToday = DAILY_LIMIT, lastRequestDate = None \<rparr>
         \<and> canRequestFeedback e w uid email
           = \<lparr> allowed = True, remaining = DAILY_LIMIT, message = None \<rparr>"
  using assms by (simp add: getUserDailyStats_def canRequestFeedback_def DAILY_LIMIT_def)

theorem quota_read_fails_open_witness:
  "\<not> isUserAdmin (toLowerCase limitUnreadableEnv) student
   \<and> getLimitFails limitUnreadableEnv = Some (FirebaseError (js ''unavailable''))
   \<and> storedCount (worldWithCount 3) todayKey = 3
   \<and> getUserDailyStats limitUnreadableEnv (worldWithCount 3) (js ''user-1'') student
       = \<lparr> totalRequests = 0, remainingToday = 3, lastRequestDate = None \<rparr>
   \<and> canRequestFeedback limitUnreadableEnv (worldWithCount 3) (js ''user-1'') student
       = \<lparr> allowed = True, remaining = 3, message = None \<rparr>"
  using quota_read_fails_open
    [of limitUnreadableEnv student "FirebaseError (js ''unavailable'')"
        "worldWithCount 3" "js ''user-1''"]
  by (simp add: scenario_defs isUserAdmin_def ADMIN_EMAILS_def DAILY_LIMIT_def js_def)


section \<open>The claims about the similarity search\<close>

text \<open>
  Claim C7, as the code has it. When the handler answers 200 with a list of cases, the
  request named a case, the index was asked for \<open>topK + 1\<close> matches (\<open>topK\<close> from
  the request, 5 by default), and the list is the formatted matches that remain after
  every match stored under the id of the queried case is removed and the rest is cut to
  \<open>topK\<close>: no match behind the list has the queried id, and the list is not longer
  than \<open>topK\<close>. An entry names its case by the \<open>questionId\<close> of the match's
  metadata; where the metadata of every match names the id the match is stored under, no
  entry of the list names the queried case.
  The claim as stated, that the list never holds an entry for the queried case, fails
  for a match stored under another id whose metadata names the queried case.
\<close>

theorem similar_cases_exclude_the_query:
  assumes "handler env req = Reply 200 (SimilarCasesBody cases)"
    and "topK = (case reqTopK req of None \<Rightarrow> 5 | Some k \<Rightarrow> k)"
  shows "\<exists>qid title description v matches.
           reqQuestionId req = Some qid \<and> reqTitle req = Some title
           \<and> reqDescription req = Some description
           \<and> embed env (title @ js ''\<newline>\<newline>'' @ description) = Inr v
           \<and> indexQuery env v (topK + 1) = Inr matches
           \<and> map Some cases = map formatMatch (selectMatches qid topK matches)
           \<and> (\<forall>m \<in> set (selectMatches qid topK matches). matchId m \<noteq> qid)
           \<and> length cases \<le> topK
           \<and> ((\<forall>m \<in> set matches. indexedUnderOwnId m)
                \<longrightarrow> (\<forall>c \<in> set cases. sc_questionId c \<noteq> qid))"
proof -
  from assms obtain qid title description where
    req: "reqQuestionId req = Some qid" "reqTitle req = Some title"
      "reqDescription req = Some description"
    and found: "searchSimilar env qid title description topK = Inr cases"
    by (auto simp: handler_def Let_def split: if_splits option.splits sum.splits)
  from found obtain v matches where
    v: "embed env (title @ js ''\<newline>\<newline>'' @ description) = Inr v"
    and ms: "indexQuery env v (topK + 1) = Inr matches"
    and th: "those (map formatMatch (selectMatches qid topK matches)) = Some cases"
    by (auto simp: searchSimilar_def split: sum.splits option.splits)
  have eq: "map Some cases = map formatMatch (selectMatches qid topK matches)"
    by (rule those_map_Some [OF th])
  have len: "length cases \<le> topK"
    using selectMatches_length [of qid topK matches] map_eq_imp_length_eq [OF eq] by simp
  have excl: "\<forall>m \<in> set (selectMatches qid topK matches). matchId m \<noteq> qid"
    using selectMatches_set by blast
  have ids: "(\<forall>m \<in> set matches. indexedUnderOwnId m)
               \<longrightarrow> (\<forall>c \<in> set cases. sc_questionId c \<noteq> qid)"
  proof (intro impI ballI)
    fix c assume own: "\<forall>m \<in> set matches. indexedUnderOwnId m" and c: "c \<in> set cases"
    from formatted_case_id [OF eq c] obtain m md where
      m: "m \<in> set (selectMatches qid topK matches)" "matchMetadata m = Some md"
        "sc_questionId c = md_questionId md"
      by blast
    from selectMatches_set [OF m(1)] own m(2)
    have "md_questionId md = matchId m" "matchId m \<noteq> qid"
      by (auto simp: indexedUnderOwnId_def)
    with m(3) show "sc_questionId c \<noteq> qid" by simp
  qed
  from req v ms eq len excl ids show ?thesis by blast
qed

text \<open>
  The theorem at an index that ranks the queried \<open>case-1\<close> first, with \<open>topK = 2\<close>:
  the answer holds \<open>case-2\<close> and \<open>case-3\<close>.
\<close>

theorem similar_cases_exclude_the_query_witness:
  "handler exampleApi exampleRequest
     = Reply 200 (SimilarCasesBody
         [exampleCase, exampleCase\<lparr> sc_questionId := js ''case-3'', sc_similarity := 0.8 \<rparr>])
   \<and> (2::nat) = (case reqTopK exampleRequest of None \<Rightarrow> 5 | Some k \<Rightarrow> k)
   \<and> (\<exists>qid title description v matches.
           reqQuestionId exampleRequest = Some qid \<and> reqTitle exampleRequest = Some title
           \<and> reqDescription exampleRequest = Some description
           \<and> embed exampleApi (title @ js ''\<newline>\<newline>'' @ description) = Inr v
           \<and> indexQuery exampleApi v (2 + 1) = Inr matches
           \<and> map Some [exampleCase,
                        exampleCase\<lparr> sc_questionId := js ''case-3'', sc_similarity := 0.8 \<rparr>]
               = map formatMatch (selectMatches qid 2 matches)
           \<and> (\<forall>m \<in> set (selectMatches qid 2 matches). matchId m \<noteq> qid)
           \<and> length [exampleCase,
                      exampleCase\<lparr> sc_questionId := js ''case-3'', sc_similarity := 0.8 \<rparr>] \<le> 2
           \<and> ((\<forall>m \<in> set matches. indexedUnderOwnId m)
                \<longrightarrow> (\<forall>c \<in> set [exampleCase,
                         exampleCase\<lparr> sc_questionId := js ''case-3'', sc_similarity := 0.8 \<rparr>].
                       sc_questionId c \<noteq> qid)))"
proof -
  have h1: "handler exampleApi exampleRequest
     = Reply 200 (SimilarCasesBody
         [exampleCase, exampleCase\<lparr> sc_questionId := js ''case-3'', sc_similarity := 0.8 \<rparr>])"
    by (rule example_search)
  have h2: "(2::nat) = (case reqTopK exampleRequest of None \<Rightarrow> 5 | Some k \<Rightarrow> k)"
    by (simp add: exampleRequest_def)
  from similar_cases_exclude_the_query [OF h1 h2] h1 h2 show ?thesis by blast
qed

text \<open>
  Claim C7 as stated fails: the index holds \<open>case-2\<close> with metadata that names
  \<open>case-1\<close>; queried for \<open>case-1\<close>, the handler removes the match stored under
  \<open>case-1\<close> and answers with an entry whose \<open>questionId\<close> is \<open>case-1\<close>.
\<close>

theorem mislabelled_match_counterexample:
  "reqQuestionId exampleRequest = Some (js ''case-1'')
   \<and> handler mislabelledApi exampleRequest
       = Reply 200 (SimilarCasesBody [exampleCase\<lparr> sc_questionId := js ''case-1'' \<rparr>])
   \<and> sc_questionId (exampleCase\<lparr> sc_questionId := js ''case-1'' \<rparr>) = js ''case-1''"
  by (simp add: handler_def searchSimilar_def selectMatches_def formatMatch_def
      mislabelledApi_def upsertedMatch_def noMetadata_def overriddenBy_def
      exampleRequest_def exampleCase_def orZero_def Let_def js_def)




text \<open>
  Claim C9 at a corpus of three cases where indexing the first one fails: the loop of
  \<open>src/components/AdminVectorDB.tsx\<close> leaves at that failure. The second and the
  third case are never sent to \<open>indexCase\<close>, and the run ends in the error state with
  no counts. (The client-side version of the component goes on and reports 2 successes
  and 1 failure out of 3: \<open>clientSide_on_first_failure\<close>,
  \<open>clientSide_indexer_counts_every_case\<close>.)
\<close>

theorem indexAllCases_stops_at_first_failure:
  "indexAllCases firstFailsEnv idleUi
     = \<lparr> indexing = False, progress = (0, 3), status = statusError,
         adminMessage = FailedToIndexCases (Error (js ''Failed to index case: 500'')),
         indexCalls = [js ''case-1''] \<rparr>"
  by (simp add: indexAllCases_def firstFailsEnv_def idleUi_def indexCase_def exampleQuestion_def
      natToString.simps Let_def js_def)

text \<open>
  Claim C10. The promise of \<open>findSimilarCases\<close> always resolves. Whenever the
  \<open>try\<close> block throws it resolves to the empty list: when \<open>fetch\<close> rejects, when
  the status is not OK, when the body is not JSON, and when the body has no
  \<open>similarCases\<close> to read. A failed request and a search without results give the
  same value.
\<close>

theorem findSimilarCases_never_rejects:
  "(\<exists>similarCases. findSimilarCases reply = Inr similarCases)
   \<and> (similarCasesRequest reply = Inl err \<longrightarrow> findSimilarCases reply = Inr [])
   \<and> findSimilarCases None = Inr []
   \<and> (\<not> ok \<longrightarrow> findSimilarCases (Some (Response ok code body)) = Inr [])
   \<and> findSimilarCases (Some (Response ok code NotJson)) = Inr []
   \<and> findSimilarCases (Some (Response ok code (Json None))) = Inr []
   \<and> findSimilarCases (Some (Response True code (Json (Some [])))) = findSimilarCases None"
  by (auto simp: findSimilarCases_def similarCasesRequest_def split: sum.splits option.splits
      response.splits jsonBody.splits)

text \<open>The theorem at a reply with status 500, as the handler sends it on a failure.\<close>

theorem findSimilarCases_never_rejects_witness:
  "similarCasesRequest (Some (Response False 500 (Json None)))
     = Inl (Error (js ''API error: 500''))
   \<and> \<not> False
   \<and> findSimilarCases (Some (Response False 500 (Json None))) = Inr []
   \<and> overHttp (Reply 500 (ErrorBody (js ''Failed to find similar cases'')))
       = Some (Response False 500 (Json None))"
  using findSimilarCases_never_rejects
    [of "Some (Response False 500 (Json None))" "Error (js ''API error: 500'')" False 500
        "Json None"]
  by (simp add: similarCasesRequest_def overHttp_def findSimilarCases_def natToString.simps
      js_def)

end
